theory Spec2Isabelle
  imports Main
begin

section \<open>Values exchanged with the libraries\<close>

text \<open>
  The gateway is written in Go against three libraries: \<^verbatim>\<open>golang-jwt/jwt/v5\<close> (claims and
  token parsing), \<^verbatim>\<open>gorilla/websocket\<close> (the socket) and \<^verbatim>\<open>encoding/json\<close>. Their
  results are values here; the decisions the gateway takes on them are modelled in full.

  A claim value is what \<^verbatim>\<open>encoding/json\<close> decodes into an \<^verbatim>\<open>interface{}\<close>. Numbers are
  \<^verbatim>\<open>float64\<close> in Go; the model keeps whole seconds only, which is all that
  \<^verbatim>\<open>NumericDate.Unix()\<close> returns.
\<close>

datatype jvalue = JNumber int | JString string | JBool bool | JNull

text \<open>
  \<^verbatim>\<open>jwt.MapClaims\<close> is a Go map, which may be \<^verbatim>\<open>nil\<close>: \<open>None\<close> is the nil map,
  \<open>Some m\<close> an allocated one.
\<close>

type_synonym MapClaims = "(string \<rightharpoonup> jvalue) option"

datatype error = Err string

text \<open>
  \<^verbatim>\<open>MapClaims.GetExpirationTime\<close> of the jwt library returns a pointer to a
  \<^verbatim>\<open>NumericDate\<close> and an error. The pointer is \<^verbatim>\<open>nil\<close> when the key \<^verbatim>\<open>exp\<close> is absent
  (a lookup in a nil map finds nothing), when its value is the number zero, and when its
  value is not a number (then with an error). \<open>None\<close> is the nil pointer, \<open>Some s\<close> a date
  whose \<^verbatim>\<open>Unix()\<close> is \<open>s\<close>.
\<close>

definition GetExpirationTime :: "MapClaims \<Rightarrow> int option \<times> error option" where
  "GetExpirationTime m =
     (case m of
        None \<Rightarrow> (None, None)
      | Some f \<Rightarrow>
          (case f ''exp'' of
             None \<Rightarrow> (None, None)
           | Some (JNumber n) \<Rightarrow> (if n = 0 then (None, None) else (Some n, None))
           | Some _ \<Rightarrow> (None, Some (Err ''exp is invalid''))))"

text \<open>
  \<^verbatim>\<open>exp.Unix()\<close> on a \<^verbatim>\<open>*NumericDate\<close> reads the embedded \<^verbatim>\<open>time.Time\<close> through the
  pointer: on a nil pointer the Go runtime panics with a nil dereference.
\<close>

datatype panic = NilDereference

definition Unix :: "int option \<Rightarrow> panic + int" where
  "Unix p = (case p of None \<Rightarrow> Inl NilDereference | Some s \<Rightarrow> Inr s)"

section \<open>The open authenticator (package \<^verbatim>\<open>open_auth\<close>)\<close>

text \<open>
  A parsed token as the jwt library hands it back. \<^verbatim>\<open>ParseUnverified\<close> fills the raw
  string, the header and the claims; it leaves \<open>Valid\<close> false and never looks at a key.
\<close>

record Token =
  Raw :: string
  Header :: "string \<rightharpoonup> jvalue"
  Claims :: MapClaims
  Signature :: string
  Valid :: bool

text \<open>
  \<^verbatim>\<open>new(jwt.Parser).ParseUnverified(authToken, jwt.MapClaims{})\<close> is the library's parser,
  taken as a parameter: \<open>Inl\<close> is its error, \<open>Inr\<close> the token. The claims object the
  parser fills is the \<^verbatim>\<open>MapClaims\<close> passed in, so the type assertion
  \<^verbatim>\<open>token.Claims.(jwt.MapClaims)\<close> of the source always succeeds.
\<close>

type_synonym parser = "string \<Rightarrow> error + Token"

definition ValidateJwt :: "parser \<Rightarrow> string \<Rightarrow> error + MapClaims" where
  "ValidateJwt ParseUnverified authToken =
     (case ParseUnverified authToken of
        Inl err \<Rightarrow> Inl err
      | Inr token \<Rightarrow> Inr (Claims token))"

text \<open>
  \<^verbatim>\<open>main\<close> builds the gateway with \<^verbatim>\<open>open_auth.NewOpenAuthenticator()\<close>; the gateway
  keeps it in its \<^verbatim>\<open>authenticator\<close> field and passes it to the connection manager.
\<close>

record WsGw =
  gw_authenticator :: "string \<Rightarrow> error + MapClaims"

definition NewWsGw :: "(string \<Rightarrow> error + MapClaims) \<Rightarrow> WsGw" where
  "NewWsGw authenticator = \<lparr>gw_authenticator = authenticator\<rparr>"

definition main_wsgw :: "parser \<Rightarrow> WsGw" where
  "main_wsgw ParseUnverified = NewWsGw (ValidateJwt ParseUnverified)"

section \<open>Wire messages (package \<^verbatim>\<open>server\<close>)\<close>

text \<open>
  \<^verbatim>\<open>IngressMsg\<close> and \<^verbatim>\<open>EgressMsg\<close> with the fields of the source. The accessor methods
  \<^verbatim>\<open>ID()\<close>, \<^verbatim>\<open>Type()\<close>, \<^verbatim>\<open>Channel()\<close> and \<^verbatim>\<open>Data()\<close> of \<^verbatim>\<open>IngressMsg\<close> return the fields
  unchanged, so the model reads the fields. \<^verbatim>\<open>json.RawMessage\<close> is a byte string; in an
  outbound message \<open>None\<close> is the nil slice that a failed \<^verbatim>\<open>json.Marshal\<close> leaves.
\<close>

record IngressMsg =
  InMsgType :: string
  InMsgCh :: string
  InMsgID :: string
  InMsgData :: string

record EgressMsg =
  Type :: string
  Channel :: string
  ID :: string
  Data :: "string option"

text \<open>
  \<^verbatim>\<open>NewEgressMsg(id, outMsgType, channel, data)\<close> marshals \<^verbatim>\<open>data\<close> and, when that fails,
  logs and goes on with the nil payload. The argument \<open>data\<close> of the model is the result of
  \<^verbatim>\<open>json.Marshal(data)\<close>: \<open>Some\<close> bytes, or \<open>None\<close> for an error. The second component is
  what the call logs.
\<close>

definition NewEgressMsg :: "string \<Rightarrow> string \<Rightarrow> string \<Rightarrow> string option \<Rightarrow> EgressMsg \<times> string list" where
  "NewEgressMsg ident outMsgType channel data =
     (\<lparr>Type = outMsgType, Channel = channel, ID = ident, Data = data\<rparr>,
      (case data of None \<Rightarrow> [''error marshalling data''] | Some _ \<Rightarrow> []))"

section \<open>The socket\<close>

datatype frame = TextMessage string | PingMessage | CloseMessage

text \<open>
  A \<^verbatim>\<open>websocket.Conn\<close>: the frames written so far, how often \<^verbatim>\<open>Close\<close> was called, whether
  the transport has failed, and the settings of the read side. An operation on a socket
  that was closed or whose transport failed returns an error and does nothing else.
\<close>

record Conn =
  written :: "frame list"
  close_calls :: nat
  broken :: bool
  read_deadline :: "int option"
  read_limit :: "nat option"
  pong_handler :: bool

definition fresh_conn :: Conn where
  "fresh_conn = \<lparr>written = [], close_calls = 0, broken = False, read_deadline = None,
                  read_limit = None, pong_handler = False\<rparr>"

definition unusable :: "Conn \<Rightarrow> bool" where
  "unusable k = (broken k \<or> 0 < close_calls k)"

definition WriteMessage :: "frame \<Rightarrow> Conn \<Rightarrow> Conn \<times> error option" where
  "WriteMessage f k =
     (if unusable k then (k, Some (Err ''write failed''))
      else (k\<lparr>written := written k @ [f]\<rparr>, None))"

definition SetReadDeadline :: "int \<Rightarrow> Conn \<Rightarrow> Conn \<times> error option" where
  "SetReadDeadline t k =
     (if unusable k then (k, Some (Err ''set deadline failed''))
      else (k\<lparr>read_deadline := Some t\<rparr>, None))"

definition conn_Close :: "Conn \<Rightarrow> Conn \<times> error option" where
  "conn_Close k =
     (k\<lparr>close_calls := Suc (close_calls k)\<rparr>,
      (if 0 < close_calls k then Some (Err ''use of closed network connection'') else None))"

section \<open>The client (\<^verbatim>\<open>wsclient.go\<close>)\<close>

text \<open>
  \<^verbatim>\<open>WsClient\<close>. Fields of the struct:
  \<^item> \<open>id_c\<close> is \<^verbatim>\<open>id\<close>, \<open>connection\<close> the socket pointer (\<open>None\<close> is nil);
  \<^item> \<open>ingress\<close> lists the envelopes the read pump has sent on the \<^verbatim>\<open>ingress\<close> channel,
    oldest first (its consumer is taken to be receiving);
  \<^item> \<open>egress\<close> lists the messages handed to the \<^verbatim>\<open>egress\<close> channel and not yet taken by the
    write pump, \<open>egress_closed\<close> whether the channel was closed (\<^verbatim>\<open>make\<close> gives an open
    channel and no statement of the repository closes it);
  \<^item> \<open>cancelled\<close> is the \<^verbatim>\<open>context\<close>/\<^verbatim>\<open>cancel\<close> pair: true once \<^verbatim>\<open>cancel()\<close> was called;
  \<^item> \<open>claims\<close>, \<open>expire\<close>, \<open>authenticated\<close> as in the source.
  What the Go runtime holds for the client:
  \<^item> \<open>timers\<close>: one entry per \<^verbatim>\<open>time.AfterFunc\<close> timer that was armed and has not yet
    delivered its signal on \<^verbatim>\<open>authChannel\<close>, each with the Unix second it was armed for;
  \<^item> \<open>read_pump\<close>, \<open>write_pump\<close>: whether the goroutine of that pump is running.
  The authenticator and the manager are arguments of the operations; logging goes to one
  log of the process.
\<close>

record WsClient =
  id_c :: int
  connection :: "Conn option"
  ingress :: "IngressMsg list"
  egress :: "EgressMsg list"
  egress_closed :: bool
  claims :: MapClaims
  cancelled :: bool
  expire :: int
  authenticated :: bool
  timers :: "int list"
  read_pump :: bool
  write_pump :: bool

text \<open>
  The process: the fields \<^verbatim>\<open>clients\<close> and \<^verbatim>\<open>nextClientID\<close> of the one
  \<^verbatim>\<open>ConnectionManager\<close>, the objects behind the \<^verbatim>\<open>*WsClient\<close> pointers (\<open>heap\<close>, with
  \<open>allocated\<close> the next free address), the calls of \<^verbatim>\<open>ClientConnected\<close> made so far,
  each with the client as it was at the call, and the log messages.
\<close>

record world =
  clients :: "int \<rightharpoonup> nat"
  nextClientID :: int
  heap :: "nat \<Rightarrow> WsClient"
  allocated :: nat
  connected :: "(nat \<times> WsClient) list"
  logged :: "string list"

text \<open>
  What the gateway calls and cannot see into: the \<^verbatim>\<open>Authenticator\<close> interface, and the
  three uses of \<^verbatim>\<open>encoding/json\<close> (\<open>None\<close> is an error): decoding a frame into an
  \<^verbatim>\<open>IngressMsg\<close>, decoding the data of an envelope into an \<^verbatim>\<open>AuthMsg\<close> (the result is its
  \<^verbatim>\<open>AuthToken\<close>), and encoding an \<^verbatim>\<open>EgressMsg\<close>.
\<close>

record ext =
  authenticator :: "string \<Rightarrow> error + MapClaims"
  unmarshalIngress :: "string \<Rightarrow> IngressMsg option"
  unmarshalAuth :: "string \<Rightarrow> string option"
  marshalEgress :: "EgressMsg \<Rightarrow> string option"

definition log :: "string \<Rightarrow> world \<Rightarrow> world" where
  "log s w = w\<lparr>logged := logged w @ [s]\<rparr>"

definition upd :: "nat \<Rightarrow> (WsClient \<Rightarrow> WsClient) \<Rightarrow> world \<Rightarrow> world" where
  "upd a f w = w\<lparr>heap := (heap w)(a := f (heap w a))\<rparr>"

definition alloc :: "WsClient \<Rightarrow> world \<Rightarrow> nat \<times> world" where
  "alloc c w = (allocated w, w\<lparr>heap := (heap w)(allocated w := c), allocated := Suc (allocated w)\<rparr>)"

text \<open>
  \<^verbatim>\<open>publishConnected\<close> calls \<^verbatim>\<open>ClientConnected(c)\<close> on the manager's handler, which may
  read the client through the pointer at once.
\<close>

definition publishConnected :: "nat \<Rightarrow> world \<Rightarrow> world" where
  "publishConnected a w = w\<lparr>connected := connected w @ [(a, heap w a)]\<rparr>"

text \<open>
  A send on the unbuffered \<^verbatim>\<open>egress\<close> channel: it panics on a closed channel, is taken by
  the write pump when that is running (its \<^verbatim>\<open>select\<close> is the only receiver in the
  program), and otherwise never completes.
\<close>

datatype send_result = Sent | SendBlocks | SendPanics

definition egress_send :: "nat \<Rightarrow> EgressMsg \<Rightarrow> world \<Rightarrow> send_result \<times> world" where
  "egress_send a m w =
     (if egress_closed (heap w a) then (SendPanics, w)
      else if write_pump (heap w a) then (Sent, upd a (\<lambda>c. c\<lparr>egress := egress c @ [m]\<rparr>) w)
      else (SendBlocks, w))"

definition SendResponse :: "nat \<Rightarrow> string \<Rightarrow> string \<Rightarrow> string \<Rightarrow> string option \<Rightarrow> world \<Rightarrow> send_result \<times> world" where
  "SendResponse a ident reqType channel data w =
     (let (m, ls) = NewEgressMsg ident reqType channel data
      in egress_send a m (foldl (\<lambda>v s. log s v) w ls))"

definition SendUpdate :: "nat \<Rightarrow> string \<Rightarrow> string \<Rightarrow> string option \<Rightarrow> world \<Rightarrow> send_result \<times> world" where
  "SendUpdate a updateType channel data w =
     (let (m, ls) = NewEgressMsg [] updateType channel data
      in egress_send a m (foldl (\<lambda>v s. log s v) w ls))"

text \<open>
  \<^verbatim>\<open>Close\<close>: cancel the context, then close the socket if there is one; the error of the
  socket's \<^verbatim>\<open>Close\<close> is discarded.
\<close>

definition Close :: "nat \<Rightarrow> world \<Rightarrow> world" where
  "Close a w =
     upd a (\<lambda>c. c\<lparr>cancelled := True,
                  connection := (case connection c of
                                   None \<Rightarrow> None
                                 | Some k \<Rightarrow> Some (fst (conn_Close k)))\<rparr>) w"

definition NewClient :: "int \<Rightarrow> MapClaims \<Rightarrow> int \<Rightarrow> int \<Rightarrow> WsClient" where
  "NewClient ident claims_v authExpire now =
     \<lparr>id_c = ident, connection = None, ingress = [], egress = [], egress_closed = False,
      claims = claims_v, cancelled = False,
      expire = (if authExpire = 0 then now + 30 else authExpire),
      authenticated = (\<not> Option.is_none claims_v),
      timers = [], read_pump = False, write_pump = False\<rparr>"

text \<open>
  \<^verbatim>\<open>setAuthExpireTime\<close> stores the value and arms a new \<^verbatim>\<open>time.AfterFunc\<close> timer for the
  second \<^verbatim>\<open>c.expire+1\<close> (an \<^verbatim>\<open>int64\<close> sum, which wraps). The timer returned by
  \<^verbatim>\<open>AfterFunc\<close> is dropped, so nothing can stop it.
\<close>

definition wrap64 :: "int \<Rightarrow> int" where
  "wrap64 i = (i + 2 ^ 63) mod 2 ^ 64 - 2 ^ 63"

definition setAuthExpireTime :: "nat \<Rightarrow> int \<Rightarrow> world \<Rightarrow> world" where
  "setAuthExpireTime a expire_v w =
     upd a (\<lambda>c. c\<lparr>expire := expire_v, timers := timers c @ [wrap64 (expire_v + 1)]\<rparr>) w"

text \<open>
  \<^verbatim>\<open>Start\<close>: the two \<^verbatim>\<open>go\<close> statements start the pumps, whose steps are the functions
  below, driven by what the socket and the runtime deliver.
\<close>

definition Start :: "nat \<Rightarrow> world \<Rightarrow> world" where
  "Start a w =
     (let w1 = upd a (\<lambda>c. c\<lparr>read_pump := True, write_pump := True\<rparr>) w;
          w2 = setAuthExpireTime a (expire (heap w1 a)) w1;
          w3 = (if \<not> authenticated (heap w2 a)
                then log ''Client not authenticated using bearer token. Waiting for auth message.'' w2
                else w2)
      in if authenticated (heap w3 a) then publishConnected a w3 else w3)"

section \<open>The connection manager\<close>

definition NewConnectionManager :: world where
  "NewConnectionManager =
     \<lparr>clients = Map.empty, nextClientID = 0,
      heap = (\<lambda>_. NewClient 0 None 0 0), allocated = 0, connected = [], logged = []\<rparr>"

definition addClient :: "nat \<Rightarrow> world \<Rightarrow> world" where
  "addClient a w = w\<lparr>clients := (clients w)(id_c (heap w a) \<mapsto> a)\<rparr>"

definition removeClient :: "nat \<Rightarrow> world \<Rightarrow> world" where
  "removeClient a w =
     (if clients w (id_c (heap w a)) \<noteq> None
      then (let w1 = Close a w in w1\<lparr>clients := (clients w1)(id_c (heap w1 a) := None)\<rparr>)
      else w)"

section \<open>The upgrade handshake (\<^verbatim>\<open>ServeWs\<close>)\<close>

text \<open>
  \<^verbatim>\<open>strings.Split(s, " ")\<close>: the pieces of \<open>s\<close> between the separators, one more than
  there are separators; the empty string gives one empty piece.
\<close>

fun Split :: "string \<Rightarrow> char \<Rightarrow> string list" where
  "Split [] sep = [[]]"
| "Split (x # xs) sep =
     (if x = sep then [] # Split xs sep
      else (case Split xs sep of
              [] \<Rightarrow> [[x]]
            | p # ps \<Rightarrow> (x # p) # ps))"

text \<open>
  The request, as far as the handler reads it: the value of the \<^verbatim>\<open>Authorization\<close> header
  (\<^verbatim>\<open>Header.Get\<close> gives the empty string when there is none), whether
  \<^verbatim>\<open>webSocketUpgrader.Upgrade\<close> succeeds on it, and whether \<^verbatim>\<open>w.Write\<close> fails. The
  handler's answer: the status passed to \<^verbatim>\<open>WriteHeader\<close> with the body passed to
  \<^verbatim>\<open>Write\<close>, or the switch to the socket of the client at an address, or a panic. What the
  upgrader itself writes to the response when it fails is inside the library and not part
  of the model.
\<close>

record Request =
  Authorization :: string
  upgradable :: bool
  write_fails :: bool

datatype response = Rejected nat string | Switched nat | Panicked panic

definition respond :: "nat \<Rightarrow> string \<Rightarrow> Request \<Rightarrow> world \<Rightarrow> response \<times> world" where
  "respond status body r w =
     (Rejected status body, (if write_fails r then log ''Failed to write response'' w else w))"

text \<open>Lines 100 to 102: the counter is incremented with no lock held.\<close>

definition ServeWs_enter :: "world \<Rightarrow> world" where
  "ServeWs_enter w = log ''New connection received.'' (w\<lparr>nextClientID := nextClientID w + 1\<rparr>)"

text \<open>
  Lines 137 to 154: the client is built with the value \<^verbatim>\<open>m.nextClientID\<close> has now, then the
  socket is upgraded, stored in the client, and the client registered and started.
\<close>

definition ServeWs_upgrade :: "int \<Rightarrow> Request \<Rightarrow> MapClaims \<Rightarrow> int \<Rightarrow> world \<Rightarrow> response \<times> world" where
  "ServeWs_upgrade now r user expire_v w =
     (let (a, w1) = alloc (NewClient (nextClientID w) user expire_v now) w
      in if \<not> upgradable r
         then respond 400 ''Websocket upgrade error'' r (log ''Websocket upgrade error'' w1)
         else (Switched a,
               Start a (addClient a (upd a (\<lambda>c. c\<lparr>connection := Some fresh_conn\<rparr>) w1))))"

text \<open>Lines 103 to 154.\<close>

definition ServeWs_serve :: "ext \<Rightarrow> int \<Rightarrow> Request \<Rightarrow> world \<Rightarrow> response \<times> world" where
  "ServeWs_serve x now r w =
     (let authHeader = Authorization r
      in if authHeader \<noteq> []
         then (let parts = Split authHeader (CHR '' '')
               in if length parts \<noteq> 2
                  then respond 401 ''Authorize failed.'' r (log ''Authorize failed.'' w)
                  else (case authenticator x (parts ! 1) of
                          Inl err \<Rightarrow> respond 401 ''Authorize failed.'' r (log ''Authorize failed.'' w)
                        | Inr claims_v \<Rightarrow>
                            (case Unix (fst (GetExpirationTime claims_v)) of
                               Inl p \<Rightarrow> (Panicked p, w)
                             | Inr e \<Rightarrow>
                                 ServeWs_upgrade now r claims_v e (log ''Authorize succeeded.'' w))))
         else ServeWs_upgrade now r None 0 w)"

definition ServeWs :: "ext \<Rightarrow> int \<Rightarrow> Request \<Rightarrow> world \<Rightarrow> response \<times> world" where
  "ServeWs x now r w = ServeWs_serve x now r (ServeWs_enter w)"

section \<open>The read pump\<close>

text \<open>
  What \<^verbatim>\<open>ReadMessage\<close> returns: an error (with whether
  \<^verbatim>\<open>IsUnexpectedCloseError\<close> holds of it), or the bytes of a frame.
\<close>

datatype read_result = ReadError bool | Message string

datatype flow = Next | Break | Return | Panic panic

text \<open>
  Lines 156 to 179, the handling of an envelope on channel \<^verbatim>\<open>sys\<close> with type \<^verbatim>\<open>auth\<close>.
  Line 176 calls \<^verbatim>\<open>expirationTime.Unix()\<close> on the pointer that \<^verbatim>\<open>GetExpirationTime\<close>
  returned, whose error is dropped.
\<close>

definition readMessages_auth :: "ext \<Rightarrow> nat \<Rightarrow> IngressMsg \<Rightarrow> world \<Rightarrow> flow \<times> world" where
  "readMessages_auth x a request w =
     (case unmarshalAuth x (InMsgData request) of
        None \<Rightarrow> (Next, log ''error unmarshalling auth msg'' w)
      | Some authToken \<Rightarrow>
          if authToken = [] then (Next, log ''invalid auth msg'' w)
          else (case authenticator x authToken of
                  Inl err \<Rightarrow> (Return, Close a (log ''invalid auth msg'' w))
                | Inr claims_v \<Rightarrow>
                    (let w1 = log ''Successfully authenticated'' w;
                         w2 = (if \<not> authenticated (heap w1 a)
                               then publishConnected a (upd a (\<lambda>c. c\<lparr>authenticated := True\<rparr>) w1)
                               else w1);
                         w3 = upd a (\<lambda>c. c\<lparr>claims := claims_v\<rparr>) w2
                     in (case Unix (fst (GetExpirationTime claims_v)) of
                           Inl p \<Rightarrow> (Panic p, w3)
                         | Inr e \<Rightarrow> (Next, setAuthExpireTime a e (log ''Authorize succeeded.'' w3))))))"

text \<open>Lines 138 to 184, one turn of the loop on what \<^verbatim>\<open>ReadMessage\<close> returned.\<close>

definition readMessages_body :: "ext \<Rightarrow> nat \<Rightarrow> read_result \<Rightarrow> world \<Rightarrow> flow \<times> world" where
  "readMessages_body x a rr w =
     (case rr of
        ReadError unexpected \<Rightarrow>
          (Break, (if unexpected then log ''Websocket read error occurred'' w else w))
      | Message message \<Rightarrow>
          (case unmarshalIngress x message of
             None \<Rightarrow> (Break, log ''error unmarshalling event'' w)
           | Some request \<Rightarrow>
               (case (if InMsgCh request = ''sys'' \<and> InMsgType request = ''auth''
                      then readMessages_auth x a request w else (Next, w)) of
                  (Next, w1) \<Rightarrow>
                    (Next, log ''InMsg received''
                             (upd a (\<lambda>c. c\<lparr>ingress := ingress c @ [request]\<rparr>) w1))
                | (fl, w1) \<Rightarrow> (fl, w1))))"

text \<open>
  The loop over what the socket delivers. When the list is used up the pump is inside
  \<^verbatim>\<open>ReadMessage\<close>, waiting: the flow is still \<open>Next\<close>.
\<close>

fun readMessages_loop :: "ext \<Rightarrow> nat \<Rightarrow> read_result list \<Rightarrow> world \<Rightarrow> flow \<times> world" where
  "readMessages_loop x a [] w = (Next, w)"
| "readMessages_loop x a (rr # rrs) w =
     (case readMessages_body x a rr w of
        (Next, w1) \<Rightarrow> readMessages_loop x a rrs w1
      | (fl, w1) \<Rightarrow> (fl, w1))"

text \<open>
  How a pump ends: still running, returned, or the process went down with a panic that no
  deferred function recovers.
\<close>

datatype pump_end = Running | Exited | Crashed panic

text \<open>The deferred function of the read pump; Go runs it on a return and on a panic.\<close>

definition readMessages_deferred :: "nat \<Rightarrow> world \<Rightarrow> world" where
  "readMessages_deferred a w =
     upd a (\<lambda>c. c\<lparr>cancelled := True, read_pump := False\<rparr>) (removeClient a w)"

definition readMessages :: "ext \<Rightarrow> int \<Rightarrow> nat \<Rightarrow> read_result list \<Rightarrow> world \<Rightarrow> pump_end \<times> world" where
  "readMessages x now a rrs w =
     (case connection (heap w a) of
        None \<Rightarrow> (Crashed NilDereference, readMessages_deferred a w)
      | Some k \<Rightarrow>
          (case SetReadDeadline (now + 100) k of
             (k1, Some err) \<Rightarrow>
               (Exited, readMessages_deferred a (log ''Error setting read deadline:'' w))
           | (k1, None) \<Rightarrow>
               (let k2 = k1\<lparr>read_limit := Some (1024 * 1024), pong_handler := True\<rparr>;
                    w1 = upd a (\<lambda>c. c\<lparr>connection := Some k2\<rparr>) w
                in (case readMessages_loop x a rrs w1 of
                      (Next, w2) \<Rightarrow> (Running, w2)
                    | (Panic p, w2) \<Rightarrow> (Crashed p, readMessages_deferred a w2)
                    | (fl, w2) \<Rightarrow> (Exited, readMessages_deferred a w2)))))"

section \<open>The write pump\<close>

text \<open>
  \<^verbatim>\<open>c.connection.WriteMessage\<close> through the client's pointer: \<open>None\<close> is the nil
  dereference when the client has no socket.
\<close>

definition conn_write :: "frame \<Rightarrow> nat \<Rightarrow> world \<Rightarrow> (world \<times> error option) option" where
  "conn_write f a w =
     (case connection (heap w a) of
        None \<Rightarrow> None
      | Some k \<Rightarrow>
          (case WriteMessage f k of
             (k1, e) \<Rightarrow> Some (upd a (\<lambda>c. c\<lparr>connection := Some k1\<rparr>) w, e)))"

text \<open>
  The four cases of the \<^verbatim>\<open>select\<close>. A receive from \<^verbatim>\<open>egress\<close> is ready when a message is
  pending or the channel is closed; the ticker's case whenever the ticker has fired; a
  receive from \<^verbatim>\<open>authChannel\<close> when one of the armed timers (named by the second it was
  armed for) has run its function; \<^verbatim>\<open>context.Done()\<close> once the context is cancelled.
\<close>

datatype select_event = EgressRecv | Tick | AuthSignal int | ContextDone

text \<open>
  Lines 197 to 237, one turn of the loop at the Unix second \<open>now\<close>; \<open>None\<close> when the case
  is not ready in this state.
\<close>

definition writeMessages_select :: "ext \<Rightarrow> int \<Rightarrow> nat \<Rightarrow> select_event \<Rightarrow> world \<Rightarrow> (flow \<times> world) option" where
  "writeMessages_select x now a ev w =
     (case ev of
        EgressRecv \<Rightarrow>
          (case egress (heap w a) of
             m # ms \<Rightarrow>
               (let w1 = upd a (\<lambda>c. c\<lparr>egress := ms\<rparr>) w;
                    data = marshalEgress x m;
                    w2 = (if data = None then log ''error marshalling event'' w1 else w1)
                in (case conn_write (TextMessage (case data of None \<Rightarrow> [] | Some d \<Rightarrow> d)) a w2 of
                      None \<Rightarrow> Some (Panic NilDereference, w2)
                    | Some (w3, e) \<Rightarrow>
                        Some (Next, log ''Message sent''
                                      (if e \<noteq> None then log ''Error sending message'' w3 else w3))))
           | [] \<Rightarrow>
               (if egress_closed (heap w a)
                then (case conn_write CloseMessage a w of
                        None \<Rightarrow> Some (Panic NilDereference, w)
                      | Some (w1, e) \<Rightarrow>
                          Some (Return, (if e \<noteq> None then log ''Error connection closed'' w1 else w1)))
                else None))
      | Tick \<Rightarrow>
          (let w1 = log ''Ping ticker...'' w
           in (case conn_write PingMessage a w1 of
                 None \<Rightarrow> Some (Panic NilDereference, w1)
               | Some (w2, e) \<Rightarrow>
                   (if e \<noteq> None then Some (Return, log ''Error sending ping'' w2)
                    else Some (Next, w2))))
      | AuthSignal t \<Rightarrow>
          (if t \<in> set (timers (heap w a))
           then (let w1 = log ''Auth channel'' (upd a (\<lambda>c. c\<lparr>timers := remove1 t (timers c)\<rparr>) w)
                 in if expire (heap w1 a) \<le> now
                    then (let w2 = log ''Auth expire timeout'' w1
                          in (case conn_write CloseMessage a w2 of
                                None \<Rightarrow> Some (Panic NilDereference, w2)
                              | Some (w3, e) \<Rightarrow>
                                  Some (Next, (if e \<noteq> None then log ''Error connection closed'' w3
                                               else w3))))
                    else Some (Next, w1))
           else None)
      | ContextDone \<Rightarrow>
          (if cancelled (heap w a) then Some (Return, w) else None))"

text \<open>
  The loop over the cases the runtime picks, each with the second at which it runs; a case
  that is not ready is not picked.
\<close>

fun writeMessages_loop :: "ext \<Rightarrow> nat \<Rightarrow> (select_event \<times> int) list \<Rightarrow> world \<Rightarrow> flow \<times> world" where
  "writeMessages_loop x a [] w = (Next, w)"
| "writeMessages_loop x a ((ev, now) # evs) w =
     (case writeMessages_select x now a ev w of
        None \<Rightarrow> writeMessages_loop x a evs w
      | Some (Next, w1) \<Rightarrow> writeMessages_loop x a evs w1
      | Some (fl, w1) \<Rightarrow> (fl, w1))"

text \<open>The deferred function of the write pump (stopping the ticker leaves no trace here).\<close>

definition writeMessages_deferred :: "nat \<Rightarrow> world \<Rightarrow> world" where
  "writeMessages_deferred a w = upd a (\<lambda>c. c\<lparr>write_pump := False\<rparr>) (removeClient a w)"

definition writeMessages :: "ext \<Rightarrow> nat \<Rightarrow> (select_event \<times> int) list \<Rightarrow> world \<Rightarrow> pump_end \<times> world" where
  "writeMessages x a evs w =
     (case writeMessages_loop x a evs w of
        (Next, w1) \<Rightarrow> (Running, w1)
      | (Panic p, w1) \<Rightarrow> (Crashed p, writeMessages_deferred a w1)
      | (fl, w1) \<Rightarrow> (Exited, writeMessages_deferred a w1))"

section \<open>Observations and sample inputs\<close>

text \<open>How often the socket of the client at an address was closed (none without a socket).\<close>

definition socket_closes :: "nat \<Rightarrow> world \<Rightarrow> nat" where
  "socket_closes a w = (case connection (heap w a) of None \<Rightarrow> 0 | Some k \<Rightarrow> close_calls k)"

text \<open>
  A parser for the examples. It knows three token strings: \<open>good\<close> carries a subject and
  an expiry, \<open>noexp\<close> a subject only, and \<open>forged\<close> an administrator's subject under a
  signature nobody checked; any other string is malformed.
\<close>

definition sample_parser :: parser where
  "sample_parser s =
     (if s = ''good'' then
        Inr \<lparr>Raw = s, Header = [''alg'' \<mapsto> JString ''HS256''],
             Claims = Some [''sub'' \<mapsto> JString ''u1'', ''exp'' \<mapsto> JNumber 2000],
             Signature = [], Valid = False\<rparr>
      else if s = ''noexp'' then
        Inr \<lparr>Raw = s, Header = [''alg'' \<mapsto> JString ''HS256''],
             Claims = Some [''sub'' \<mapsto> JString ''u1''],
             Signature = [], Valid = False\<rparr>
      else if s = ''forged'' then
        Inr \<lparr>Raw = s, Header = [''alg'' \<mapsto> JString ''HS256''],
             Claims = Some [''sub'' \<mapsto> JString ''admin'', ''exp'' \<mapsto> JNumber 9000],
             Signature = ''not-a-signature'', Valid = False\<rparr>
      else Inl (Err ''token is malformed''))"

text \<open>
  A frame decoder for the examples: a frame is \<open>type|ch|id|data\<close>, anything else does not
  decode. The data of an auth envelope is the token itself, and \<open>?\<close> does not decode.
\<close>

definition sample_unmarshalIngress :: "string \<Rightarrow> IngressMsg option" where
  "sample_unmarshalIngress s =
     (case Split s (CHR ''|'') of
        [t, ch, i, d] \<Rightarrow> Some \<lparr>InMsgType = t, InMsgCh = ch, InMsgID = i, InMsgData = d\<rparr>
      | _ \<Rightarrow> None)"

definition sample_ext :: ext where
  "sample_ext =
     \<lparr>authenticator = gw_authenticator (main_wsgw sample_parser),
      unmarshalIngress = sample_unmarshalIngress,
      unmarshalAuth = (\<lambda>d. if d = ''?'' then None else Some d),
      marshalEgress = (\<lambda>m. Some (ID m @ Type m))\<rparr>"

definition no_header :: Request where
  "no_header = \<lparr>Authorization = [], upgradable = True, write_fails = False\<rparr>"

definition bearer :: "string \<Rightarrow> Request" where
  "bearer tok = \<lparr>Authorization = ''Bearer '' @ tok, upgradable = True, write_fails = False\<rparr>"

text \<open>
  Three states of the process at second 1000 and after: a first client upgraded with no
  header; the same after its read pump took an auth envelope with the good token; and a
  client upgraded with the good token whose read pump then met a read error and whose
  write pump saw the cancelled context.
\<close>

definition sample_unauth :: world where
  "sample_unauth = snd (ServeWs sample_ext 1000 no_header NewConnectionManager)"

definition sample_reauth :: world where
  "sample_reauth = snd (readMessages_body sample_ext 0 (Message ''auth|sys||good'') sample_unauth)"

definition sample_closing :: world where
  "sample_closing =
     snd (readMessages sample_ext 1001 0 [ReadError False]
            (snd (ServeWs sample_ext 1000 (bearer ''good'') NewConnectionManager)))"

definition sample_torn :: world where
  "sample_torn = snd (writeMessages sample_ext 0 [(ContextDone, 1002)] sample_closing)"

text \<open>
  Two upgrade requests run by two goroutines: both have executed line 100 of \<^verbatim>\<open>ServeWs\<close>
  before either goes on; then the first runs to its end, then the second.
\<close>

definition both_entered :: world where
  "both_entered = ServeWs_enter (ServeWs_enter NewConnectionManager)"

definition first_served :: "response \<times> world" where
  "first_served = ServeWs_serve sample_ext 1000 no_header both_entered"

definition second_served :: "response \<times> world" where
  "second_served = ServeWs_serve sample_ext 1000 no_header (snd first_served)"

lemmas model_defs =
  GetExpirationTime_def Unix_def ValidateJwt_def NewWsGw_def main_wsgw_def NewEgressMsg_def
  fresh_conn_def unusable_def WriteMessage_def SetReadDeadline_def conn_Close_def log_def upd_def
  alloc_def publishConnected_def egress_send_def SendResponse_def SendUpdate_def Close_def
  NewClient_def setAuthExpireTime_def Start_def NewConnectionManager_def addClient_def
  removeClient_def respond_def ServeWs_enter_def ServeWs_upgrade_def ServeWs_serve_def
  ServeWs_def readMessages_auth_def readMessages_body_def readMessages_deferred_def
  readMessages_def conn_write_def writeMessages_select_def writeMessages_deferred_def
  writeMessages_def wrap64_def socket_closes_def Option.is_none_def

lemmas sample_defs =
  sample_parser_def sample_unmarshalIngress_def sample_ext_def no_header_def bearer_def
  sample_unauth_def sample_reauth_def sample_closing_def sample_torn_def both_entered_def
  first_served_def second_served_def

section \<open>The open authenticator\<close>



section \<open>Stale expiry signals\<close>

text \<open>
  C10. When the write pump receives the signal of an armed timer at a second strictly
  before the stored \<open>expire\<close>, it goes round its loop again having written nothing: the
  socket, the claims, the authenticated flag, the expiry and the context are as before,
  the only change to the client is that the timer is spent, and the registry is as before.
\<close>

theorem stale_expiry_signal_changes_nothing:
  assumes "t \<in> set (timers (heap w a))" and "now < expire (heap w a)"
  shows "\<exists>w'. writeMessages_select x now a (AuthSignal t) w = Some (Next, w')
           \<and> connection (heap w' a) = connection (heap w a)
           \<and> claims (heap w' a) = claims (heap w a)
           \<and> authenticated (heap w' a) = authenticated (heap w a)
           \<and> expire (heap w' a) = expire (heap w a)
           \<and> cancelled (heap w' a) = cancelled (heap w a)
           \<and> heap w' a = (heap w a)\<lparr>timers := remove1 t (timers (heap w a))\<rparr>
           \<and> clients w' = clients w"
  using assms by (simp add: writeMessages_select_def log_def upd_def Let_def)

text \<open>
  C10, on the client that started unauthenticated at second 1000 and re-authenticated with
  a token expiring at 2000: the timer armed for 1031 fires at 1031 and nothing is written.
\<close>

theorem stale_expiry_signal_changes_nothing_witness:
  "1031 \<in> set (timers (heap sample_reauth 0))
   \<and> 1031 < expire (heap sample_reauth 0)
   \<and> (\<exists>w'. writeMessages_select sample_ext 1031 0 (AuthSignal 1031) sample_reauth = Some (Next, w')
           \<and> connection (heap w' 0) = Some fresh_conn
           \<and> authenticated (heap w' 0)
           \<and> expire (heap w' 0) = 2000
           \<and> \<not> cancelled (heap w' 0)
           \<and> timers (heap w' 0) = [2001]
           \<and> clients w' 1 = Some 0)"
proof -
  have t: "1031 \<in> set (timers (heap sample_reauth 0))"
    by (simp add: sample_defs model_defs Let_def)
  have e: "1031 < expire (heap sample_reauth 0)"
    by (simp add: sample_defs model_defs Let_def)
  have s: "connection (heap sample_reauth 0) = Some fresh_conn"
          "authenticated (heap sample_reauth 0)"
          "expire (heap sample_reauth 0) = 2000"
          "\<not> cancelled (heap sample_reauth 0)"
          "timers (heap sample_reauth 0) = [1031, 2001]"
          "clients sample_reauth 1 = Some 0"
    by (simp_all add: sample_defs model_defs Let_def)
  from stale_expiry_signal_changes_nothing [OF t e, of sample_ext] s t e
  show ?thesis by auto
qed

section \<open>Removal from the registry\<close>

text \<open>
  C7. Removing a client a second time changes nothing: the result of two removals is the
  result of one. After a removal the client's id is absent from the registry, and two
  removals close the socket at most once more than it had been closed. \<^verbatim>\<open>Close\<close> itself
  may run twice: it only cancels the context again and drops the error of the socket's
  second \<^verbatim>\<open>Close\<close>.
\<close>

theorem removeClient_idempotent:
  "removeClient a (removeClient a w) = removeClient a w
   \<and> clients (removeClient a w) (id_c (heap w a)) = None
   \<and> socket_closes a (removeClient a (removeClient a w)) \<le> Suc (socket_closes a w)
   \<and> cancelled (heap (Close a (Close a w)) a)
   \<and> clients (Close a (Close a w)) = clients w"
  by (auto simp: removeClient_def Close_def upd_def conn_Close_def socket_closes_def Let_def
           split: option.splits)

text \<open>
  C7, on the client registered under id 1: the first removal closes its socket once and
  deletes the entry, the second leaves the socket closed once.
\<close>

theorem removeClient_idempotent_witness:
  "clients sample_unauth 1 = Some 0
   \<and> socket_closes 0 sample_unauth = 0
   \<and> clients (removeClient 0 sample_unauth) 1 = None
   \<and> socket_closes 0 (removeClient 0 sample_unauth) = 1
   \<and> removeClient 0 (removeClient 0 sample_unauth) = removeClient 0 sample_unauth
   \<and> socket_closes 0 (removeClient 0 (removeClient 0 sample_unauth)) = 1"
proof -
  have s: "clients sample_unauth 1 = Some 0" "socket_closes 0 sample_unauth = 0"
          "id_c (heap sample_unauth 0) = 1"
          "socket_closes 0 (removeClient 0 sample_unauth) = 1"
    by (simp_all add: sample_defs model_defs Let_def)
  from removeClient_idempotent [of 0 sample_unauth] s
  show ?thesis by simp
qed

section \<open>Expiry timers\<close>

text \<open>
  C4, as stated, fails: the client that started unauthenticated and then re-authenticated
  has two timers outstanding, the one armed by \<^verbatim>\<open>Start\<close> for 1031 and the one armed by the
  re-authentication for 2001.
\<close>

theorem two_expiry_timers_outstanding:
  "timers (heap sample_unauth 0) = [1031] \<and> timers (heap sample_reauth 0) = [1031, 2001]
   \<and> \<not> length (timers (heap sample_reauth 0)) \<le> 1"
  by (simp add: sample_defs model_defs Let_def)

text \<open>
  C4, amended. Each call of \<^verbatim>\<open>setAuthExpireTime\<close> stores the new expiry and arms one more
  timer, for the second after it; the timers armed before stay armed. \<^verbatim>\<open>Start\<close> does the
  same with the expiry the client was built with.
\<close>

theorem setAuthExpireTime_arms_one_more:
  "timers (heap (setAuthExpireTime a e w) a) = timers (heap w a) @ [wrap64 (e + 1)]
   \<and> expire (heap (setAuthExpireTime a e w) a) = e
   \<and> timers (heap (Start a w) a) = timers (heap w a) @ [wrap64 (expire (heap w a) + 1)]"
  by (simp add: setAuthExpireTime_def Start_def upd_def log_def publishConnected_def Let_def)

section \<open>Answers of the upgrade handshake\<close>




section \<open>Forwarding of decoded envelopes\<close>




section \<open>Sending after teardown\<close>

lemma select_keeps_egress_closed:
  "writeMessages_select x now a ev w = Some (fl, w') \<Longrightarrow> egress_closed (heap w' a) = egress_closed (heap w a)"
  by (auto simp add: writeMessages_select_def conn_write_def log_def upd_def Let_def WriteMessage_def
      split: select_event.splits list.splits option.splits if_splits prod.splits)

lemma loop_keeps_egress_closed:
  "writeMessages_loop x a evs w = (fl, w') \<Longrightarrow> egress_closed (heap w' a) = egress_closed (heap w a)"
proof (induction evs arbitrary: w)
  case Nil
  then show ?case by simp
next
  case (Cons e evs)
  obtain ev now where e: "e = (ev, now)" by (cases e)
  show ?case
  proof (cases "writeMessages_select x now a ev w")
    case None
    with Cons e show ?thesis by simp
  next
    case (Some p)
    obtain f1 w1 where p: "p = (f1, w1)" by (cases p)
    from Some p have k: "egress_closed (heap w1 a) = egress_closed (heap w a)"
      by (simp add: select_keeps_egress_closed)
    show ?thesis
    proof (cases "f1 = Next")
      case True
      with Cons e Some p k show ?thesis by simp
    next
      case False
      with Cons.prems e Some p have "w' = w1" by (cases f1) auto
      with k show ?thesis by simp
    qed
  qed
qed

lemma deferred_egress:
  "egress_closed (heap (writeMessages_deferred a w) a) = egress_closed (heap w a)
   \<and> \<not> write_pump (heap (writeMessages_deferred a w) a)"
  by (simp add: writeMessages_deferred_def removeClient_def Close_def upd_def Let_def)

text \<open>
  C6, as stated, fails: once the read pump has torn the client down and the write pump has
  returned, the context is cancelled and the write pump is gone, and \<^verbatim>\<open>SendResponse\<close> and
  \<^verbatim>\<open>SendUpdate\<close> neither return nor fail: the send blocks.
\<close>

theorem send_after_teardown_blocks:
  "fst (writeMessages sample_ext 0 [(ContextDone, 1002)] sample_closing) = Exited
   \<and> cancelled (heap sample_torn 0) \<and> \<not> write_pump (heap sample_torn 0)
   \<and> clients sample_torn 1 = None
   \<and> fst (SendResponse 0 ''7'' ''GreetingRequest'' ''greeting'' (Some ''{}'') sample_torn) = SendBlocks
   \<and> fst (SendUpdate 0 ''tick'' ''news'' (Some ''{}'') sample_torn) = SendBlocks"
  by (simp add: sample_defs model_defs Let_def)

text \<open>
  C6, amended. After the write pump of a client has exited, a call of \<^verbatim>\<open>SendResponse\<close> or
  \<^verbatim>\<open>SendUpdate\<close> on it does not panic, since the outbound channel is never closed, and it
  does not resolve either: the write pump was the channel's only receiver, so the send
  blocks its caller, and the client is left as it was.
\<close>

theorem send_after_write_pump_exit_blocks:
  assumes "writeMessages x a evs w0 = (Exited, w)" and "\<not> egress_closed (heap w0 a)"
  shows "fst (SendResponse a ident reqType channel data w) = SendBlocks
         \<and> heap (snd (SendResponse a ident reqType channel data w)) = heap w
         \<and> fst (SendUpdate a updateType channel data w) = SendBlocks
         \<and> heap (snd (SendUpdate a updateType channel data w)) = heap w"
proof -
  obtain fl w1 where l: "writeMessages_loop x a evs w0 = (fl, w1)"
    by (cases "writeMessages_loop x a evs w0")
  with assms(1) have w: "w = writeMessages_deferred a w1"
    by (cases fl) (auto simp: writeMessages_def)
  from l assms(2) have "\<not> egress_closed (heap w1 a)"
    by (simp add: loop_keeps_egress_closed)
  with w have "\<not> egress_closed (heap w a)" "\<not> write_pump (heap w a)"
    by (simp_all add: deferred_egress)
  then show ?thesis
    by (cases data) (simp_all add: SendResponse_def SendUpdate_def NewEgressMsg_def egress_send_def log_def)
qed

text \<open>C6, on the client torn down after a read error.\<close>

theorem send_after_write_pump_exit_blocks_witness:
  "writeMessages sample_ext 0 [(ContextDone, 1002)] sample_closing = (Exited, sample_torn)
   \<and> \<not> egress_closed (heap sample_closing 0)
   \<and> fst (SendResponse 0 ''7'' ''GreetingRequest'' ''greeting'' None sample_torn) = SendBlocks
   \<and> fst (SendUpdate 0 ''tick'' ''news'' None sample_torn) = SendBlocks"
proof -
  have f: "fst (writeMessages sample_ext 0 [(ContextDone, 1002)] sample_closing) = Exited"
    by (simp add: sample_defs model_defs Let_def)
  then have x: "writeMessages sample_ext 0 [(ContextDone, 1002)] sample_closing = (Exited, sample_torn)"
    by (simp add: sample_torn_def prod_eq_iff)
  have o: "\<not> egress_closed (heap sample_closing 0)"
    by (simp add: sample_defs model_defs Let_def)
  from send_after_write_pump_exit_blocks [OF x o] x o
  show ?thesis by simp
qed

section \<open>Tokens without an expiry claim\<close>

text \<open>
  C1 does not hold of the code. The token \<open>noexp\<close> is accepted by the authenticator and
  its claims have no \<^verbatim>\<open>exp\<close>. Presented in an auth envelope, it makes the read pump
  dereference the nil date: a panic in a goroutine with no recover, which ends the
  process. Presented in the \<^verbatim>\<open>Authorization\<close> header, it makes \<^verbatim>\<open>ServeWs\<close> panic the same
  way before any answer is written.
\<close>

theorem missing_expiry_claim_panics:
  "authenticator sample_ext ''noexp'' = Inr (Some [''sub'' \<mapsto> JString ''u1''])
   \<and> GetExpirationTime (Some [''sub'' \<mapsto> JString ''u1'']) = (None, None)
   \<and> fst (readMessages sample_ext 1001 0 [Message ''auth|sys||noexp''] sample_unauth)
       = Crashed NilDereference
   \<and> fst (ServeWs sample_ext 1000 (bearer ''noexp'') NewConnectionManager)
       = Panicked NilDereference"
  by (simp add: sample_defs model_defs Let_def)

section \<open>The connected callback and the claims\<close>

text \<open>
  C2 does not hold of the code. The client that started with no header has no claims and
  no callback was made for it. When its read pump accepts the good token, the one call of
  \<^verbatim>\<open>ClientConnected\<close> sees the client authenticated and still without claims: the claims
  are stored only after the callback has returned.
\<close>

theorem connected_callback_sees_no_claims:
  "\<not> authenticated (heap sample_unauth 0)
   \<and> connected sample_unauth = []
   \<and> map (\<lambda>(a, c). (a, authenticated c, Option.is_none (claims c))) (connected sample_reauth)
       = [(0, True, True)]
   \<and> claims (heap sample_reauth 0) = Some [''sub'' \<mapsto> JString ''u1'', ''exp'' \<mapsto> JNumber 2000]"
  by (simp add: sample_defs model_defs Let_def)

section \<open>Ids under concurrent upgrades\<close>

text \<open>
  C8 does not hold of the code. When two requests have both incremented the counter before
  either builds its client, both clients are built with id 2: the second registration
  overwrites the first client's entry, the first client is in no entry, and id 1 is never
  used.
\<close>

theorem concurrent_upgrades_share_an_id:
  "fst first_served = Switched 0
   \<and> fst second_served = Switched 1
   \<and> id_c (heap (snd second_served) 0) = 2
   \<and> id_c (heap (snd second_served) 1) = 2
   \<and> clients (snd first_served) 2 = Some 0
   \<and> clients (snd second_served) 2 = Some 1
   \<and> clients (snd second_served) 1 = None"
  by (simp add: sample_defs model_defs Let_def)

end
